theory Spec2Isabelle
  imports Main
begin

section \<open>Go values used by the two packages\<close>

text \<open>
  A Go \<^verbatim>\<open>string\<close> and a \<^verbatim>\<open>[]byte\<close> are sequences of bytes; \<^typ>\<open>char\<close> is a byte.
  A Go slice may be \<^verbatim>\<open>nil\<close>: \<open>None\<close> is the nil slice, \<open>Some xs\<close> a slice with
  the elements \<open>xs\<close> (\<open>Some []\<close> is \<^verbatim>\<open>[]string{}\<close>). \<open>len\<close> is Go's \<^verbatim>\<open>len\<close>.
\<close>

type_synonym bytes = string

type_synonym 'a slice = "'a list option"

definition len :: "'a slice \<Rightarrow> nat" where
  "len xs = (case xs of None \<Rightarrow> 0 | Some ys \<Rightarrow> length ys)"

text \<open>
  \<^verbatim>\<open>strings.Split(s, sep)\<close> of Go's standard library for a separator of one byte, the
  only way \<^verbatim>\<open>parseHosts\<close> calls it (\<^verbatim>\<open>","\<close>). The library computes
  \<^verbatim>\<open>n = Count(s, sep) + 1\<close>, caps it at \<^verbatim>\<open>len(s) + 1\<close>, and then cuts \<^verbatim>\<open>s\<close> at the
  first separator (\<^verbatim>\<open>Index\<close>) at most \<^verbatim>\<open>n - 1\<close> times; what is left is the last
  element. \<open>genSplit s sep k\<close> is that loop with \<open>k\<close> cuts still allowed.
  \<^verbatim>\<open>strings.Join\<close> is the inverse direction, used to characterise the result.
\<close>

fun IndexByte :: "string \<Rightarrow> char \<Rightarrow> nat option" where
  "IndexByte [] c = None"
| "IndexByte (x # xs) c = (if x = c then Some 0 else map_option Suc (IndexByte xs c))"

definition Count :: "string \<Rightarrow> char \<Rightarrow> nat" where
  "Count s sep = length (filter (\<lambda>x. x = sep) s)"

fun genSplit :: "string \<Rightarrow> char \<Rightarrow> nat \<Rightarrow> string list" where
  "genSplit s sep 0 = [s]"
| "genSplit s sep (Suc k) =
     (case IndexByte s sep of
        None \<Rightarrow> [s]
      | Some m \<Rightarrow> take m s # genSplit (drop (m + 1) s) sep k)"

definition Split :: "string \<Rightarrow> char \<Rightarrow> string list" where
  "Split s sep =
     (let n = Count s sep + 1;
          n' = (if n > length s + 1 then length s + 1 else n)
      in genSplit s sep (n' - 1))"

fun Join :: "string list \<Rightarrow> string \<Rightarrow> string" where
  "Join [] sep = []"
| "Join [h] sep = h"
| "Join (h # t) sep = h @ sep @ Join t sep"

text \<open>
  Go raises a run-time panic where a nil pointer is dereferenced. Calls to
  \<^verbatim>\<open>logrus\<close> are recorded as the list of entries a function emits, in order.
\<close>

datatype panic = NilPointerDereference

datatype level = DebugLevel | ErrorLevel | InfoLevel

type_synonym entry = "level \<times> string"

section \<open>Package configuration (settings.go)\<close>

text \<open>
  \<^verbatim>\<open>time.Duration\<close> is a count of nanoseconds. The fields \<^verbatim>\<open>Context\<close>,
  \<^verbatim>\<open>K8sClient\<close>, \<^verbatim>\<open>informer\<close> and \<^verbatim>\<open>eventHandlerRegistration\<close> hold handles of
  the Kubernetes client; no handler reads or writes them, and they are left to the
  record's extension slot.
\<close>

type_synonym Duration = int

definition Second :: Duration where
  "Second = 1000000000"

record WorkQueueSettings =
  Name :: string
  RateLimiterBase :: Duration
  RateLimiterMax :: Duration

record HandlerSettings =
  RetryCount :: int
  Threads :: int
  WorkQueueSettings :: WorkQueueSettings

record WatcherSettings =
  NginxIngressNamespace :: string
  ResyncPeriod :: Duration

record SynchronizerSettings =
  MaxMillisecondsJitter :: int
  MinMillisecondsJitter :: int
  SyncRetryCount :: int
  SyncThreads :: int
  SyncWorkQueueSettings :: WorkQueueSettings

record Settings =
  NginxPlusHosts :: "string slice"
  Handler :: HandlerSettings
  Synchronizer :: SynchronizerSettings
  Watcher :: WatcherSettings

definition NewSettings :: Settings where
  "NewSettings =
     \<lparr> NginxPlusHosts = None,
       Handler = \<lparr> RetryCount = 5, Threads = 1,
         WorkQueueSettings = \<lparr> Name = ''nkl-handler'',
           RateLimiterBase = Second * 2, RateLimiterMax = Second * 60 \<rparr> \<rparr>,
       Synchronizer = \<lparr> MaxMillisecondsJitter = 750, MinMillisecondsJitter = 250,
         SyncRetryCount = 5, SyncThreads = 1,
         SyncWorkQueueSettings = \<lparr> Name = ''nkl-synchronizer'',
           RateLimiterBase = Second * 2, RateLimiterMax = Second * 60 \<rparr> \<rparr>,
       Watcher = \<lparr> NginxIngressNamespace = ''nginx-ingress'', ResyncPeriod = 0 \<rparr> \<rparr>"

text \<open>
  The handlers take an \<^verbatim>\<open>interface{}\<close>. What they can tell apart is its dynamic
  type: the nil interface, a \<^verbatim>\<open>*corev1.ConfigMap\<close> (a pointer, itself possibly nil),
  or a value of any other type, kept by the name of that type. Of a ConfigMap the
  handlers read the \<^verbatim>\<open>Data\<close> map only; a lookup in a nil map finds nothing, so the
  nil map is the empty one.
\<close>

record ConfigMap =
  ObjectName :: string
  Namespace :: string
  Data :: "string \<rightharpoonup> string"

datatype interface =
    NilInterface
  | PtrConfigMap "ConfigMap option"
  | OtherType string

definition updateHosts :: "Settings \<Rightarrow> string slice \<Rightarrow> Settings" where
  "updateHosts s hosts = s\<lparr>NginxPlusHosts := hosts\<rparr>"

definition parseHosts :: "Settings \<Rightarrow> string \<Rightarrow> string slice" where
  "parseHosts s hosts = Some (Split hosts CHR '','')"

text \<open>
  The type assertion \<^verbatim>\<open>obj.(*corev1.ConfigMap)\<close>: \<open>None\<close> when it fails
  (\<^verbatim>\<open>ok\<close> is false), otherwise the pointer.
\<close>

definition assertConfigMap :: "interface \<Rightarrow> ConfigMap option option" where
  "assertConfigMap obj = (case obj of PtrConfigMap p \<Rightarrow> Some p | _ \<Rightarrow> None)"

definition handleUpdateEvent ::
    "Settings \<Rightarrow> interface \<Rightarrow> interface \<Rightarrow> entry list \<times> (panic + Settings)" where
  "handleUpdateEvent s obj uu =
     (let dbg = [(DebugLevel, ''Settings::handleUpdateEvent'')] in
      case assertConfigMap obj of
        None \<Rightarrow>
          (dbg @ [(ErrorLevel,
             ''Settings::handleUpdateEvent: could not convert obj to ConfigMap'')],
           Inr s)
      | Some configMap \<Rightarrow>
          (case configMap of
             None \<Rightarrow> (dbg, Inl NilPointerDereference)
           | Some cm \<Rightarrow>
               (case Data cm ''nginx-hosts'' of
                  None \<Rightarrow>
                    (dbg @ [(ErrorLevel,
                       ''Settings::handleUpdateEvent: nginx-hosts key not found in ConfigMap'')],
                     Inr s)
                | Some hosts \<Rightarrow> (dbg, Inr (updateHosts s (parseHosts s hosts))))))"

definition handleAddEvent :: "Settings \<Rightarrow> interface \<Rightarrow> entry list \<times> (panic + Settings)" where
  "handleAddEvent s obj =
     (let (l, r) = handleUpdateEvent s obj NilInterface
      in ((DebugLevel, ''Settings::handleAddEvent'') # l, r))"

definition handleDeleteEvent :: "Settings \<Rightarrow> interface \<Rightarrow> entry list \<times> (panic + Settings)" where
  "handleDeleteEvent s uu =
     ([(DebugLevel, ''Settings::handleDeleteEvent'')], Inr (updateHosts s (Some [])))"

text \<open>
  \<^verbatim>\<open>initializeEventListeners\<close> registers the three handlers as \<^verbatim>\<open>AddFunc\<close>,
  \<^verbatim>\<open>UpdateFunc\<close> and \<^verbatim>\<open>DeleteFunc\<close>; the informer calls them one at a time, each
  with the arguments of its notification. A panic ends the run.
\<close>

datatype event =
    Added interface
  | Updated interface interface
  | Deleted interface

fun deliver :: "Settings \<Rightarrow> event \<Rightarrow> entry list \<times> (panic + Settings)" where
  "deliver s (Added obj) = handleAddEvent s obj"
| "deliver s (Updated obj obj') = handleUpdateEvent s obj obj'"
| "deliver s (Deleted obj) = handleDeleteEvent s obj"

fun run :: "Settings \<Rightarrow> event list \<Rightarrow> entry list \<times> (panic + Settings)" where
  "run s [] = ([], Inr s)"
| "run s (e # es) =
     (case deliver s e of
        (l, Inl p) \<Rightarrow> (l, Inl p)
      | (l, Inr s') \<Rightarrow> (let (l', r) = run s' es in (l @ l', r)))"

text \<open>
  An event replaces the host list when its handler reaches \<^verbatim>\<open>updateHosts\<close>: every
  delete, and an add or update whose first argument is a ConfigMap with the key
  \<^verbatim>\<open>nginx-hosts\<close>. \<open>lastReplacing\<close> is the latest such event of a sequence.
\<close>

fun replaces :: "event \<Rightarrow> bool" where
  "replaces (Deleted obj) = True"
| "replaces (Added obj) =
     (case obj of PtrConfigMap (Some cm) \<Rightarrow> Data cm ''nginx-hosts'' \<noteq> None | _ \<Rightarrow> False)"
| "replaces (Updated obj obj') =
     (case obj of PtrConfigMap (Some cm) \<Rightarrow> Data cm ''nginx-hosts'' \<noteq> None | _ \<Rightarrow> False)"

fun isDelete :: "event \<Rightarrow> bool" where
  "isDelete (Deleted obj) = True"
| "isDelete e = False"

definition lastReplacing :: "event list \<Rightarrow> event option" where
  "lastReplacing es = (case filter replaces es of [] \<Rightarrow> None | x # xs \<Rightarrow> Some (last (x # xs)))"

section \<open>Package authentication (factory.go)\<close>

text \<open>
  A Go \<^verbatim>\<open>error\<close> is kept by how it was made: \<open>New m\<close> is an error of the
  standard library with message \<open>m\<close>, \<open>Errorf m\<close> is \<^verbatim>\<open>fmt.Errorf(m)\<close> with no
  verb, and \<open>ErrorfW m e\<close> is \<^verbatim>\<open>fmt.Errorf(m + "%w", e)\<close>, which wraps \<open>e\<close>.
  \<open>Error\<close> is the message.
\<close>

datatype error =
    New string
  | Errorf string
  | ErrorfW string error

fun Error :: "error \<Rightarrow> string" where
  "Error (New m) = m"
| "Error (Errorf m) = m"
| "Error (ErrorfW m e) = m @ Error e"

text \<open>
  The factory calls three functions of Go's standard library: \<^verbatim>\<open>pem.Decode\<close>,
  \<^verbatim>\<open>x509.ParseCertificate\<close> and \<^verbatim>\<open>tls.X509KeyPair\<close>. They are parameters of the
  model: \<open>'c\<close> is \<^verbatim>\<open>x509.Certificate\<close>, \<open>'k\<close> is \<^verbatim>\<open>tls.Certificate\<close>, and a
  result with an error is \<open>Inl\<close>. \<^verbatim>\<open>pem.Decode\<close> returns the first block it finds
  (nil when there is none) and the rest of the input. A \<^verbatim>\<open>x509.CertPool\<close> is the
  list of its certificates; \<^verbatim>\<open>AddCert\<close> does not add a certificate twice.
\<close>

record pem_Block =
  Type :: string
  Headers :: "string \<rightharpoonup> string"
  Bytes :: bytes

record ('c, 'k) crypto =
  pem_Decode :: "bytes \<Rightarrow> pem_Block option \<times> bytes"
  x509_ParseCertificate :: "bytes \<Rightarrow> error + 'c"
  tls_X509KeyPair :: "bytes \<Rightarrow> bytes \<Rightarrow> error + 'k"

type_synonym 'c CertPool = "'c list"

definition NewCertPool :: "'c CertPool" where
  "NewCertPool = []"

definition AddCert :: "'c CertPool \<Rightarrow> 'c \<Rightarrow> 'c CertPool" where
  "AddCert pool cert = (if cert \<in> set pool then pool else pool @ [cert])"

text \<open>
  Of \<^verbatim>\<open>tls.Config\<close> the three fields the factory sets; all others keep their zero
  value. \<open>RootCAs\<close> is a pointer: \<open>None\<close> is nil, which leaves the choice of roots to
  the TLS library (the host's root set). The field \<^verbatim>\<open>Certificates\<close> of
  \<^verbatim>\<open>tls.Config\<close> is named \<open>ConfigCertificates\<close> here.
\<close>

record ('c, 'k) tls_Config =
  InsecureSkipVerify :: bool
  RootCAs :: "'c CertPool option"
  ConfigCertificates :: "'k slice"

text \<open>
  Modelled from the spec: the type \<^verbatim>\<open>certification.Certificates\<close> and its getters
  \<^verbatim>\<open>GetCACertificate\<close> and \<^verbatim>\<open>GetClientCertificate\<close> are not among the sources. The
  spec's certificate bundle holds a CA certificate, a client certificate and a client
  private key, each PEM bytes (empty when absent). \<^verbatim>\<open>GetClientCertificate\<close> has
  two results, which \<^verbatim>\<open>buildCertificates\<close> receives as \<^verbatim>\<open>privateKeyPEM\<close> and
  \<^verbatim>\<open>certificatePEM\<close>, in this order.
\<close>

record certification_Certificates =
  CaCertificate :: bytes
  ClientCertificate :: bytes
  ClientKey :: bytes

definition GetCACertificate :: "certification_Certificates \<Rightarrow> bytes" where
  "GetCACertificate c = CaCertificate c"

definition GetClientCertificate :: "certification_Certificates \<Rightarrow> bytes \<times> bytes" where
  "GetClientCertificate c = (ClientKey c, ClientCertificate c)"

text \<open>
  Modelled from the spec: \<^verbatim>\<open>NewTlsConfig\<close> reads \<^verbatim>\<open>settings.TlsMode\<close> and
  \<^verbatim>\<open>settings.Certificates\<close>, two fields that the \<^verbatim>\<open>Settings\<close> struct of settings.go
  does not declare. They are the spec's trust-mode selector (a string) and its
  certificate bundle.
\<close>

record TlsSettings =
  TlsMode :: string
  Certificates :: certification_Certificates

definition buildCaCertificatePool ::
    "('c, 'k) crypto \<Rightarrow> bytes \<Rightarrow> error + 'c CertPool" where
  "buildCaCertificatePool lib caCert =
     (case fst (pem_Decode lib caCert) of
        None \<Rightarrow> Inl (Errorf ''failed to decode PEM block containing CA certificate'')
      | Some block \<Rightarrow>
          (case x509_ParseCertificate lib (Bytes block) of
             Inl err \<Rightarrow> Inl (ErrorfW ''error parsing certificate: '' err)
           | Inr cert \<Rightarrow> Inr (AddCert NewCertPool cert)))"

definition buildCertificates :: "('c, 'k) crypto \<Rightarrow> bytes \<Rightarrow> bytes \<Rightarrow> error + 'k" where
  "buildCertificates lib privateKeyPEM certificatePEM =
     tls_X509KeyPair lib certificatePEM privateKeyPEM"

definition buildBasicTlsConfig :: "bool \<Rightarrow> ('c, 'k) tls_Config" where
  "buildBasicTlsConfig skipVerify =
     \<lparr> InsecureSkipVerify = skipVerify, RootCAs = None, ConfigCertificates = None \<rparr>"

definition buildSelfSignedTlsConfig ::
    "('c, 'k) crypto \<Rightarrow> certification_Certificates \<Rightarrow> error + ('c, 'k) tls_Config" where
  "buildSelfSignedTlsConfig lib certificates =
     (case buildCaCertificatePool lib (GetCACertificate certificates) of
        Inl err \<Rightarrow> Inl err
      | Inr certPool \<Rightarrow>
          Inr \<lparr> InsecureSkipVerify = False, RootCAs = Some certPool,
                ConfigCertificates = None \<rparr>)"

definition buildSelfSignedMtlsConfig ::
    "('c, 'k) crypto \<Rightarrow> certification_Certificates \<Rightarrow> error + ('c, 'k) tls_Config" where
  "buildSelfSignedMtlsConfig lib certificates =
     (case buildCaCertificatePool lib (GetCACertificate certificates) of
        Inl err \<Rightarrow> Inl err
      | Inr certPool \<Rightarrow>
          (case (case GetClientCertificate certificates of
                   (key, cert) \<Rightarrow> buildCertificates lib key cert) of
             Inl err \<Rightarrow> Inl err
           | Inr certificate \<Rightarrow>
               Inr \<lparr> InsecureSkipVerify = False, RootCAs = Some certPool,
                     ConfigCertificates = Some [certificate] \<rparr>))"

definition buildCaTlsConfig ::
    "('c, 'k) crypto \<Rightarrow> certification_Certificates \<Rightarrow> error + ('c, 'k) tls_Config" where
  "buildCaTlsConfig lib certificates =
     (case (case GetClientCertificate certificates of
              (key, cert) \<Rightarrow> buildCertificates lib key cert) of
        Inl err \<Rightarrow> Inl err
      | Inr certificate \<Rightarrow>
          Inr \<lparr> InsecureSkipVerify = False, RootCAs = None,
                ConfigCertificates = Some [certificate] \<rparr>)"

definition NewTlsConfig ::
    "('c, 'k) crypto \<Rightarrow> TlsSettings \<Rightarrow> error + ('c, 'k) tls_Config" where
  "NewTlsConfig lib settings =
     (if TlsMode settings = ''ss-tls'' then
        buildSelfSignedTlsConfig lib (Certificates settings)
      else if TlsMode settings = ''ss-mtls'' then
        buildSelfSignedMtlsConfig lib (Certificates settings)
      else if TlsMode settings = ''ca-tls'' then
        Inr (buildBasicTlsConfig False)
      else if TlsMode settings = ''ca-mtls'' then
        buildCaTlsConfig lib (Certificates settings)
      else
        Inr (buildBasicTlsConfig True))"

section \<open>Concrete inputs\<close>

text \<open>
  Inputs at which the theorems below are instantiated. \<open>knownAnswers\<close> fixes the
  answers of the three library functions on a handful of byte strings: \<open>''CA-PEM''\<close>
  stands for a PEM file holding one well-formed CA certificate, \<open>''JUNK-PEM''\<close> for a
  PEM block that is not a certificate, \<open>''CLIENT-PEM''\<close> and \<open>''CLIENT-KEY''\<close> for a
  matching certificate and key; the empty input holds no PEM block, which is what
  \<^verbatim>\<open>pem.Decode\<close> answers on it. The theorems themselves hold for every behaviour
  of the library.
\<close>

definition knownAnswers :: "(string, string \<times> string) crypto" where
  "knownAnswers =
     \<lparr> pem_Decode = (\<lambda>bs.
         if bs = ''CA-PEM'' then
           (Some \<lparr> Type = ''CERTIFICATE'', Headers = Map.empty, Bytes = ''CA-DER'' \<rparr>, [])
         else if bs = ''JUNK-PEM'' then
           (Some \<lparr> Type = ''CERTIFICATE'', Headers = Map.empty, Bytes = ''JUNK'' \<rparr>, [])
         else (None, bs)),
       x509_ParseCertificate = (\<lambda>der.
         if der = ''CA-DER'' then Inr ''CA''
         else Inl (New ''x509: malformed certificate'')),
       tls_X509KeyPair = (\<lambda>cert key.
         if cert = ''CLIENT-PEM'' \<and> key = ''CLIENT-KEY'' then Inr (cert, key)
         else Inl (New ''tls: private key does not match public key'')) \<rparr>"

definition hostsConfigMap :: "string \<Rightarrow> ConfigMap" where
  "hostsConfigMap v =
     \<lparr> ObjectName = ''nkl-config'', Namespace = ''nkl'',
       Data = [''nginx-hosts'' \<mapsto> v] \<rparr>"

definition otherConfigMap :: ConfigMap where
  "otherConfigMap =
     \<lparr> ObjectName = ''nkl-config'', Namespace = ''nkl'',
       Data = [''hosts'' \<mapsto> ''a,b''] \<rparr>"

section \<open>Helper facts about Split\<close>

lemma IndexByte_None: "IndexByte s c = None \<longleftrightarrow> c \<notin> set s"
  by (induction s) auto

lemma genSplit_nonempty: "genSplit s sep k \<noteq> []"
  by (cases k) (auto split: option.splits)

lemma IndexByte_Some:
  "IndexByte s c = Some m \<Longrightarrow> s = take m s @ c # drop (Suc m) s \<and> c \<notin> set (take m s)"
proof (induction s arbitrary: m)
  case Nil
  then show ?case by simp
next
  case (Cons x xs)
  show ?case
  proof (cases "x = c")
    case True
    with Cons.prems show ?thesis by simp
  next
    case False
    with Cons.prems obtain m' where m': "IndexByte xs c = Some m'" "m = Suc m'"
      by auto
    from Cons.IH [OF m'(1)] False m'(2) show ?thesis by auto
  qed
qed

lemma IndexByte_append:
  "c \<notin> set h \<Longrightarrow> IndexByte (h @ c # r) c = Some (length h)"
  by (induction h) auto

lemma Count_0_iff: "Count s c = 0 \<longleftrightarrow> c \<notin> set s"
  by (auto simp: Count_def filter_empty_conv)

lemma Count_append: "Count (a @ b) c = Count a c + Count b c"
  by (simp add: Count_def)

lemma Count_Cons: "Count (x # xs) c = (if x = c then Suc (Count xs c) else Count xs c)"
  by (simp add: Count_def)

lemma Count_le_length: "Count s sep \<le> length s"
  by (simp add: Count_def)

lemma Count_cut:
  assumes "IndexByte s c = Some m"
  shows "Count s c = Suc (Count (drop (Suc m) s) c)"
proof -
  from IndexByte_Some [OF assms]
  have s: "s = take m s @ c # drop (Suc m) s" and n: "c \<notin> set (take m s)" by simp_all
  have "Count (take m s @ c # drop (Suc m) s) c = Suc (Count (drop (Suc m) s) c)"
    using n by (simp add: Count_append Count_Cons Count_0_iff)
  with s show ?thesis by simp
qed

lemma Count_0: "IndexByte s c = None \<Longrightarrow> Count s c = 0"
  by (simp add: IndexByte_None Count_0_iff)

lemma Split_genSplit: "Split s sep = genSplit s sep (Count s sep)"
  using Count_le_length [of s sep] by (simp add: Split_def Let_def)

lemma Join_Cons: "t \<noteq> [] \<Longrightarrow> Join (h # t) sep = h @ sep @ Join t sep"
  by (cases t) simp_all

lemma Join_genSplit: "Join (genSplit s sep k) [sep] = s"
proof (induction k arbitrary: s)
  case 0
  then show ?case by simp
next
  case (Suc k)
  show ?case
  proof (cases "IndexByte s sep")
    case None
    then show ?thesis by simp
  next
    case (Some m)
    from IndexByte_Some [OF Some] have s: "s = take m s @ sep # drop (Suc m) s" by simp
    have "Join (genSplit s sep (Suc k)) [sep] = take m s @ [sep] @ Join (genSplit (drop (Suc m) s) sep k) [sep]"
      using Some by (simp add: Join_Cons genSplit_nonempty)
    also have "\<dots> = take m s @ sep # drop (Suc m) s"
      by (simp add: Suc.IH)
    finally show ?thesis using s by simp
  qed
qed

lemma genSplit_no_sep:
  "Count s sep \<le> k \<Longrightarrow> h \<in> set (genSplit s sep k) \<Longrightarrow> sep \<notin> set h"
proof (induction k arbitrary: s)
  case 0
  then show ?case by (simp add: Count_0_iff)
next
  case (Suc k)
  show ?case
  proof (cases "IndexByte s sep")
    case None
    with Suc.prems show ?thesis by (simp add: IndexByte_None)
  next
    case (Some m)
    from Count_cut [OF Some] Suc.prems(1) have le: "Count (drop (Suc m) s) sep \<le> k" by simp
    from Suc.prems(2) Some have "h = take m s \<or> h \<in> set (genSplit (drop (Suc m) s) sep k)"
      by simp
    then show ?thesis
      using IndexByte_Some [OF Some] Suc.IH [OF le] by auto
  qed
qed

lemma length_genSplit:
  "Count s sep \<le> k \<Longrightarrow> length (genSplit s sep k) = Suc (Count s sep)"
proof (induction k arbitrary: s)
  case 0
  then show ?case by simp
next
  case (Suc k)
  show ?case
  proof (cases "IndexByte s sep")
    case None
    then show ?thesis by (simp add: Count_0)
  next
    case (Some m)
    from Count_cut [OF Some] Suc.prems have le: "Count (drop (Suc m) s) sep \<le> k" by simp
    show ?thesis using Some Suc.IH [OF le] Count_cut [OF Some] by simp
  qed
qed

lemma Split_Join:
  "hs \<noteq> [] \<Longrightarrow> \<forall>h\<in>set hs. sep \<notin> set h \<Longrightarrow> Split (Join hs [sep]) sep = hs"
proof (induction hs)
  case Nil
  then show ?case by simp
next
  case (Cons h t)
  show ?case
  proof (cases t)
    case Nil
    with Cons.prems have "IndexByte h sep = None" by (simp add: IndexByte_None)
    then show ?thesis using Nil by (simp add: Split_genSplit Count_0 )
  next
    case (Cons h' t')
    with Cons.prems Cons.IH have IH: "Split (Join t [sep]) sep = t" by simp
    have nh: "sep \<notin> set h" using Cons.prems by simp
    have J: "Join (h # t) [sep] = h @ sep # Join t [sep]" using Cons by simp
    have I: "IndexByte (h @ sep # Join t [sep]) sep = Some (length h)"
      using nh by (rule IndexByte_append)
    have C: "Count (h @ sep # Join t [sep]) sep = Suc (Count (Join t [sep]) sep)"
      using nh by (simp add: Count_append Count_Cons Count_0_iff)
    show ?thesis
      using IH by (simp add: J Split_genSplit C I)
  qed
qed

lemma Split_props:
  "Join (Split s sep) [sep] = s"
  "h \<in> set (Split s sep) \<Longrightarrow> sep \<notin> set h"
  "length (Split s sep) = Suc (Count s sep)"
  "Split s sep \<noteq> []"
  by (simp_all add: Split_genSplit Join_genSplit length_genSplit genSplit_nonempty
        genSplit_no_sep [of s sep "Count s sep" h])

section \<open>Helper facts about the handlers\<close>

lemma handleUpdateEvent_found:
  "Data cm ''nginx-hosts'' = Some v \<Longrightarrow>
   handleUpdateEvent s (PtrConfigMap (Some cm)) old =
     ([(DebugLevel, ''Settings::handleUpdateEvent'')],
      Inr (s\<lparr>NginxPlusHosts := Some (Split v CHR '','')\<rparr>))"
  by (simp add: handleUpdateEvent_def assertConfigMap_def updateHosts_def parseHosts_def)

lemma handleUpdateEvent_missing:
  "Data cm ''nginx-hosts'' = None \<Longrightarrow>
   handleUpdateEvent s (PtrConfigMap (Some cm)) old =
     ([(DebugLevel, ''Settings::handleUpdateEvent''),
       (ErrorLevel, ''Settings::handleUpdateEvent: nginx-hosts key not found in ConfigMap'')],
      Inr s)"
  by (simp add: handleUpdateEvent_def assertConfigMap_def)

lemma handleUpdateEvent_other:
  "\<forall>p. obj \<noteq> PtrConfigMap p \<Longrightarrow>
   handleUpdateEvent s obj old =
     ([(DebugLevel, ''Settings::handleUpdateEvent''),
       (ErrorLevel, ''Settings::handleUpdateEvent: could not convert obj to ConfigMap'')],
      Inr s)"
  by (cases obj) (simp_all add: handleUpdateEvent_def assertConfigMap_def)


section \<open>Helper facts about sequences of events\<close>

lemma deliver_delete:
  "isDelete e \<Longrightarrow> snd (deliver s e) = Inr (s\<lparr>NginxPlusHosts := Some []\<rparr>)"
  by (cases e) (simp_all add: handleDeleteEvent_def updateHosts_def)

lemma replaces_cases:
  assumes "replaces e" and "\<not> isDelete e"
  obtains cm v old where "Data cm ''nginx-hosts'' = Some v"
    and "e = Added (PtrConfigMap (Some cm)) \<or> e = Updated (PtrConfigMap (Some cm)) old"
proof (cases e)
  case (Added obj)
  with assms(1) obtain cm v where "obj = PtrConfigMap (Some cm)" "Data cm ''nginx-hosts'' = Some v"
    by (auto split: interface.splits option.splits)
  with Added that show ?thesis by blast
next
  case (Updated obj old)
  with assms(1) obtain cm v where "obj = PtrConfigMap (Some cm)" "Data cm ''nginx-hosts'' = Some v"
    by (auto split: interface.splits option.splits)
  with Updated that show ?thesis by blast
next
  case (Deleted obj)
  with assms(2) show ?thesis by simp
qed

lemma deliver_replaces:
  assumes "replaces e" and "\<not> isDelete e"
  shows "\<exists>v. snd (deliver s e) = Inr (s\<lparr>NginxPlusHosts := Some (Split v CHR '','')\<rparr>)"
proof -
  from assms obtain cm v old where d: "Data cm ''nginx-hosts'' = Some v"
    and e: "e = Added (PtrConfigMap (Some cm)) \<or> e = Updated (PtrConfigMap (Some cm)) old"
    by (rule replaces_cases)
  from e show ?thesis
  proof
    assume "e = Added (PtrConfigMap (Some cm))"
    then have "snd (deliver s e) = Inr (s\<lparr>NginxPlusHosts := Some (Split v CHR '','')\<rparr>)"
      by (simp add: handleAddEvent_def handleUpdateEvent_found [OF d])
    then show ?thesis ..
  next
    assume "e = Updated (PtrConfigMap (Some cm)) old"
    then have "snd (deliver s e) = Inr (s\<lparr>NginxPlusHosts := Some (Split v CHR '','')\<rparr>)"
      by (simp add: handleUpdateEvent_found [OF d])
    then show ?thesis ..
  qed
qed

lemma handleUpdateEvent_keeps:
  assumes "\<not> (\<exists>cm. obj = PtrConfigMap (Some cm) \<and> Data cm ''nginx-hosts'' \<noteq> None)"
    and "snd (handleUpdateEvent s obj old) = Inr s'"
  shows "s' = s"
proof (cases "\<forall>p. obj \<noteq> PtrConfigMap p")
  case True
  with assms(2) show ?thesis by (simp add: handleUpdateEvent_other)
next
  case False
  then obtain p where p: "obj = PtrConfigMap p" by blast
  show ?thesis
  proof (cases p)
    case None
    with p assms(2) show ?thesis by (simp add: handleUpdateEvent_def assertConfigMap_def)
  next
    case (Some cm)
    with p assms(1) have "Data cm ''nginx-hosts'' = None" by simp
    with p Some assms(2) show ?thesis by (simp add: handleUpdateEvent_missing)
  qed
qed

lemma replaces_iff:
  "replaces (Added obj) = (\<exists>cm. obj = PtrConfigMap (Some cm) \<and> Data cm ''nginx-hosts'' \<noteq> None)"
  "replaces (Updated obj old) = (\<exists>cm. obj = PtrConfigMap (Some cm) \<and> Data cm ''nginx-hosts'' \<noteq> None)"
  by (auto split: interface.splits option.splits)

lemma deliver_keeps:
  assumes "\<not> replaces e" and "snd (deliver s e) = Inr s'"
  shows "s' = s"
proof (cases e)
  case (Added obj)
  with assms(1) have "\<not> replaces (Added obj)" by simp
  then have n: "\<not> (\<exists>cm. obj = PtrConfigMap (Some cm) \<and> Data cm ''nginx-hosts'' \<noteq> None)"
    unfolding replaces_iff .
  from assms(2) Added have "snd (handleUpdateEvent s obj NilInterface) = Inr s'"
    by (simp add: handleAddEvent_def split: prod.splits)
  with n show ?thesis by (rule handleUpdateEvent_keeps)
next
  case (Updated obj old)
  with assms(1) have "\<not> replaces (Updated obj old)" by simp
  then have n: "\<not> (\<exists>cm. obj = PtrConfigMap (Some cm) \<and> Data cm ''nginx-hosts'' \<noteq> None)"
    unfolding replaces_iff .
  from assms(2) Updated have "snd (handleUpdateEvent s obj old) = Inr s'" by simp
  with n show ?thesis by (rule handleUpdateEvent_keeps)
next
  case (Deleted obj)
  with assms(1) show ?thesis by simp
qed

lemma run_Cons_Inr:
  assumes "snd (run s (e # es)) = Inr s'"
  obtains s1 where "snd (deliver s e) = Inr s1" and "snd (run s1 es) = Inr s'"
proof (cases "deliver s e")
  case (Pair l r)
  show ?thesis
  proof (cases r)
    case (Inl p)
    with Pair assms show ?thesis by simp
  next
    case (Inr s1)
    with Pair assms have "snd (run s1 es) = Inr s'"
      by (simp split: prod.splits)
    with Pair Inr that show ?thesis by simp
  qed
qed

lemma lastReplacing_Nil: "lastReplacing [] = None"
  by (simp add: lastReplacing_def)

lemma lastReplacing_Cons:
  "lastReplacing (e # es) =
     (case lastReplacing es of
        Some x \<Rightarrow> Some x
      | None \<Rightarrow> if replaces e then Some e else None)"
  by (simp add: lastReplacing_def split: list.splits)

text \<open>
  What the host list is after a run, by the last event that replaced it: untouched
  when there is none, \<^verbatim>\<open>[]string{}\<close> after a delete, and a list of at least one
  host after an add or update.
\<close>

lemma run_hosts:
  "snd (run s es) = Inr s' \<Longrightarrow>
     (case lastReplacing es of
        None \<Rightarrow> s' = s
      | Some e \<Rightarrow>
          if isDelete e then NginxPlusHosts s' = Some []
          else (\<exists>v. NginxPlusHosts s' = Some (Split v CHR '','')))"
proof (induction es arbitrary: s)
  case Nil
  then show ?case by (simp add: lastReplacing_Nil)
next
  case (Cons e es)
  from Cons.prems obtain s1 where d: "snd (deliver s e) = Inr s1"
    and r: "snd (run s1 es) = Inr s'"
    by (rule run_Cons_Inr)
  note IH = Cons.IH [OF r]
  show ?case
  proof (cases "lastReplacing es")
    case (Some x)
    with IH show ?thesis by (simp add: lastReplacing_Cons)
  next
    case None
    with IH have eq: "s' = s1" by simp
    show ?thesis
    proof (cases "replaces e")
      case False
      from False d have "s1 = s" by (rule deliver_keeps)
      with eq None False show ?thesis by (simp add: lastReplacing_Cons)
    next
      case True
      show ?thesis
      proof (cases "isDelete e")
        case del: True
        from deliver_delete [OF del, of s] d have "NginxPlusHosts s1 = Some []" by simp
        with eq None True del show ?thesis by (simp add: lastReplacing_Cons)
      next
        case nodel: False
        from deliver_replaces [OF True nodel, of s] d
        have "\<exists>v. NginxPlusHosts s1 = Some (Split v CHR '','')" by auto
        with eq None True nodel show ?thesis by (simp add: lastReplacing_Cons)
      qed
    qed
  qed
qed

section \<open>Claims about the configuration watcher\<close>

text \<open>
  C1. When \<^verbatim>\<open>handleUpdateEvent\<close> is called with a ConfigMap whose data binds
  \<^verbatim>\<open>nginx-hosts\<close> to \<open>v\<close>, it returns normally and the host list becomes
  \<^verbatim>\<open>strings.Split(v, ",")\<close>, every other field unchanged. The new list joined with
  commas is \<open>v\<close> again, byte for byte, so nothing is trimmed, dropped, merged or
  rejected; no host contains a comma; there is one host more than there are commas;
  and it is the only non-empty list of comma-free strings whose join is \<open>v\<close>. For the
  empty \<open>v\<close> the list is the one-element list holding the empty string.
\<close>

theorem C1_handleUpdateEvent_splits:
  assumes "Data cm ''nginx-hosts'' = Some v"
  shows "\<exists>hs. snd (handleUpdateEvent s (PtrConfigMap (Some cm)) old) =
                 Inr (s\<lparr>NginxPlusHosts := Some hs\<rparr>)
             \<and> hs = Split v CHR '',''
             \<and> Join hs '','' = v
             \<and> (\<forall>h\<in>set hs. CHR '','' \<notin> set h)
             \<and> length hs = Suc (Count v CHR '','')
             \<and> (\<forall>hs'. hs' \<noteq> [] \<and> (\<forall>h\<in>set hs'. CHR '','' \<notin> set h) \<and> Join hs' '','' = v
                    \<longrightarrow> hs' = hs)
             \<and> (v = [] \<longrightarrow> hs = [[]])"
proof (rule exI [of _ "Split v CHR '',''"], intro conjI)
  show "snd (handleUpdateEvent s (PtrConfigMap (Some cm)) old) =
          Inr (s\<lparr>NginxPlusHosts := Some (Split v CHR '','')\<rparr>)"
    using assms by (simp add: handleUpdateEvent_found)
  show "Split v CHR '','' = Split v CHR '',''"
    by (rule refl)
  show "Join (Split v CHR '','') '','' = v"
    by (rule Split_props(1))
  show "\<forall>h\<in>set (Split v CHR '',''). CHR '','' \<notin> set h"
    by (rule ballI) (rule Split_props(2))
  show "length (Split v CHR '','') = Suc (Count v CHR '','')"
    by (rule Split_props(3))
  show "\<forall>hs'. hs' \<noteq> [] \<and> (\<forall>h\<in>set hs'. CHR '','' \<notin> set h) \<and> Join hs' '','' = v
          \<longrightarrow> hs' = Split v CHR '',''"
  proof (intro allI impI, elim conjE)
    fix hs'
    assume ne: "hs' \<noteq> []" and nc: "\<forall>h\<in>set hs'. CHR '','' \<notin> set h"
      and j: "Join hs' '','' = v"
    from Split_Join [OF ne nc] have "Split (Join hs' '','') CHR '','' = hs'" .
    then show "hs' = Split v CHR '',''"
      by (simp only: j)
  qed
  show "v = [] \<longrightarrow> Split v CHR '','' = [[]]"
    by (simp add: Split_def Count_def)
qed

theorem C1_handleUpdateEvent_splits_witness:
  "Data (hostsConfigMap '' a,b,, a'') ''nginx-hosts'' = Some '' a,b,, a''
   \<and> snd (handleUpdateEvent NewSettings
            (PtrConfigMap (Some (hostsConfigMap '' a,b,, a''))) NilInterface) =
       Inr (NewSettings\<lparr>NginxPlusHosts := Some ['' a'', ''b'', [], '' a'']\<rparr>)"
proof -
  have d: "Data (hostsConfigMap '' a,b,, a'') ''nginx-hosts'' = Some '' a,b,, a''"
    by (simp add: hostsConfigMap_def)
  have v: "Split '' a,b,, a'' CHR '','' = ['' a'', ''b'', [], '' a'']"
    by (simp add: Split_def Count_def)
  from C1_handleUpdateEvent_splits [OF d, of NewSettings NilInterface]
  have "snd (handleUpdateEvent NewSettings
               (PtrConfigMap (Some (hostsConfigMap '' a,b,, a''))) NilInterface) =
          Inr (NewSettings\<lparr>NginxPlusHosts := Some (Split '' a,b,, a'' CHR '','')\<rparr>)"
    by (elim exE conjE) (simp only:)
  with d v show ?thesis by (simp only: simp_thms)
qed
text \<open>
  C5. When the first argument of \<^verbatim>\<open>handleUpdateEvent\<close> is not a
  \<^verbatim>\<open>*corev1.ConfigMap\<close> (the type assertion fails), or is a ConfigMap whose data has
  no key \<^verbatim>\<open>nginx-hosts\<close>, the handler returns normally with the settings, and so
  the host list, exactly as they were, after logging one entry at error level.
  (A nil pointer of type \<^verbatim>\<open>*corev1.ConfigMap\<close> passes the type assertion and has no
  data map; it is neither of the two cases.)
\<close>

theorem C5_handleUpdateEvent_discards:
  assumes "(\<forall>p. obj \<noteq> PtrConfigMap p)
           \<or> (\<exists>cm. obj = PtrConfigMap (Some cm) \<and> Data cm ''nginx-hosts'' = None)"
  shows "snd (handleUpdateEvent s obj old) = Inr s
         \<and> (\<exists>msg. fst (handleUpdateEvent s obj old) =
                [(DebugLevel, ''Settings::handleUpdateEvent''), (ErrorLevel, msg)])"
  using assms
proof
  assume "\<forall>p. obj \<noteq> PtrConfigMap p"
  then show ?thesis by (simp add: handleUpdateEvent_other)
next
  assume "\<exists>cm. obj = PtrConfigMap (Some cm) \<and> Data cm ''nginx-hosts'' = None"
  then show ?thesis by (auto simp: handleUpdateEvent_missing)
qed

theorem C5_handleUpdateEvent_discards_witness:
  "snd (handleUpdateEvent (NewSettings\<lparr>NginxPlusHosts := Some [''a'']\<rparr>)
          (OtherType ''*corev1.Secret'') NilInterface) =
     Inr (NewSettings\<lparr>NginxPlusHosts := Some [''a'']\<rparr>)
   \<and> snd (handleUpdateEvent (NewSettings\<lparr>NginxPlusHosts := Some [''a'']\<rparr>)
          (PtrConfigMap (Some otherConfigMap)) NilInterface) =
     Inr (NewSettings\<lparr>NginxPlusHosts := Some [''a'']\<rparr>)"
proof -
  have a: "(\<forall>p. OtherType ''*corev1.Secret'' \<noteq> PtrConfigMap p)
           \<or> (\<exists>cm. OtherType ''*corev1.Secret'' = PtrConfigMap (Some cm)
                  \<and> Data cm ''nginx-hosts'' = None)"
    by simp
  have b: "(\<forall>p. PtrConfigMap (Some otherConfigMap) \<noteq> PtrConfigMap p)
           \<or> (\<exists>cm. PtrConfigMap (Some otherConfigMap) = PtrConfigMap (Some cm)
                  \<and> Data cm ''nginx-hosts'' = None)"
    by (simp add: otherConfigMap_def)
  from C5_handleUpdateEvent_discards [OF a] C5_handleUpdateEvent_discards [OF b]
  show ?thesis by blast
qed
text \<open>
  C6. For every event payload and every prior state, \<^verbatim>\<open>handleDeleteEvent\<close> returns
  normally and replaces the host list with the empty sequence \<^verbatim>\<open>[]string{}\<close>; every
  other field of the settings keeps its value.
\<close>

theorem C6_handleDeleteEvent_clears:
  "snd (handleDeleteEvent s obj) = Inr (s\<lparr>NginxPlusHosts := Some []\<rparr>)"
  by (simp add: handleDeleteEvent_def updateHosts_def)
text \<open>
  C7. For every argument and every prior state, \<^verbatim>\<open>handleAddEvent(obj)\<close> ends as
  \<^verbatim>\<open>handleUpdateEvent(obj, nil)\<close> does: the same settings, or the same panic. Its
  log is that of the update handler after one more debug entry of its own. The
  second argument of \<^verbatim>\<open>handleUpdateEvent\<close> is never read.
\<close>

theorem C7_handleAddEvent_is_update:
  "snd (handleAddEvent s obj) = snd (handleUpdateEvent s obj NilInterface)
   \<and> fst (handleAddEvent s obj) =
       (DebugLevel, ''Settings::handleAddEvent'') # fst (handleUpdateEvent s obj NilInterface)
   \<and> handleUpdateEvent s obj old = handleUpdateEvent s obj NilInterface"
  by (simp add: handleAddEvent_def handleUpdateEvent_def assertConfigMap_def split: prod.splits)


text \<open>
  C10, as it holds. \<^verbatim>\<open>strings.Split\<close> on a comma never yields the empty list, so an
  add or update that replaces the host list installs at least one host, and a list
  of no hosts is installed by a delete only. Over every state reached from
  \<^verbatim>\<open>NewSettings\<close> by a sequence of events that ends normally: the host list has
  no element exactly when the last event that replaced it was a delete, or when no
  event has replaced it yet; in the latter case it is still the nil slice that
  \<^verbatim>\<open>NewSettings\<close> left.
\<close>

theorem C10_empty_host_list:
  "Split v CHR '','' \<noteq> []
   \<and> (replaces e \<and> \<not> isDelete e \<longrightarrow>
        (\<exists>hs. snd (deliver s e) = Inr (s\<lparr>NginxPlusHosts := Some hs\<rparr>) \<and> hs \<noteq> []))
   \<and> (snd (run NewSettings es) = Inr s' \<longrightarrow>
        (len (NginxPlusHosts s') = 0) =
          (case lastReplacing es of None \<Rightarrow> True | Some x \<Rightarrow> isDelete x))
   \<and> (snd (run NewSettings es) = Inr s' \<and> lastReplacing es = None \<longrightarrow>
        NginxPlusHosts s' = None)"
proof (intro conjI impI)
  show "Split v CHR '','' \<noteq> []"
    by (rule Split_props(4))
next
  assume "replaces e \<and> \<not> isDelete e"
  then have "\<exists>w. snd (deliver s e) = Inr (s\<lparr>NginxPlusHosts := Some (Split w CHR '','')\<rparr>)"
    by (intro deliver_replaces) simp_all
  then obtain w where
    "snd (deliver s e) = Inr (s\<lparr>NginxPlusHosts := Some (Split w CHR '','')\<rparr>)" ..
  moreover have "Split w CHR '','' \<noteq> []"
    by (rule Split_props(4))
  ultimately show "\<exists>hs. snd (deliver s e) = Inr (s\<lparr>NginxPlusHosts := Some hs\<rparr>) \<and> hs \<noteq> []"
    by blast
next
  assume r: "snd (run NewSettings es) = Inr s'"
  note h = run_hosts [OF r]
  show "(len (NginxPlusHosts s') = 0) =
          (case lastReplacing es of None \<Rightarrow> True | Some x \<Rightarrow> isDelete x)"
  proof (cases "lastReplacing es")
    case None
    with h have "s' = NewSettings" by simp
    with None show ?thesis by (simp add: len_def NewSettings_def)
  next
    case (Some x)
    show ?thesis
    proof (cases "isDelete x")
      case True
      with h Some show ?thesis by (simp add: len_def)
    next
      case False
      with h Some obtain w where "NginxPlusHosts s' = Some (Split w CHR '','')" by auto
      with Some False show ?thesis by (simp add: len_def Split_props(4))
    qed
  qed
next
  assume "snd (run NewSettings es) = Inr s' \<and> lastReplacing es = None"
  then have r: "snd (run NewSettings es) = Inr s'" and n: "lastReplacing es = None"
    by simp_all
  from run_hosts [OF r] n have "s' = NewSettings" by simp
  then show "NginxPlusHosts s' = None" by (simp add: NewSettings_def)
qed

theorem C10_empty_host_list_witness:
  "snd (run NewSettings
          [Added (PtrConfigMap (Some (hostsConfigMap ''a,b''))),
           Updated (OtherType ''*corev1.Secret'') NilInterface,
           Deleted NilInterface]) = Inr (NewSettings\<lparr>NginxPlusHosts := Some []\<rparr>)
   \<and> len (NginxPlusHosts (NewSettings\<lparr>NginxPlusHosts := Some []\<rparr>)) = 0
   \<and> lastReplacing
          [Added (PtrConfigMap (Some (hostsConfigMap ''a,b''))),
           Updated (OtherType ''*corev1.Secret'') NilInterface,
           Deleted NilInterface] = Some (Deleted NilInterface)
   \<and> replaces (Added (PtrConfigMap (Some (hostsConfigMap ''a,b''))))
   \<and> \<not> isDelete (Added (PtrConfigMap (Some (hostsConfigMap ''a,b''))))
   \<and> (\<exists>hs. snd (deliver NewSettings (Added (PtrConfigMap (Some (hostsConfigMap ''a,b''))))) =
               Inr (NewSettings\<lparr>NginxPlusHosts := Some hs\<rparr>) \<and> hs \<noteq> [])
   \<and> snd (run NewSettings [Updated (OtherType ''*corev1.Secret'') NilInterface]) = Inr NewSettings
   \<and> lastReplacing [Updated (OtherType ''*corev1.Secret'') NilInterface] = None
   \<and> NginxPlusHosts NewSettings = None"
proof -
  let ?add = "Added (PtrConfigMap (Some (hostsConfigMap ''a,b'')))"
  let ?upd = "Updated (OtherType ''*corev1.Secret'') NilInterface"
  let ?es = "[?add, ?upd, Deleted NilInterface]"
  let ?s' = "NewSettings\<lparr>NginxPlusHosts := Some []\<rparr>"
  have r: "snd (run NewSettings ?es) = Inr ?s'"
    by (simp add: handleAddEvent_def handleUpdateEvent_def assertConfigMap_def handleDeleteEvent_def
          updateHosts_def parseHosts_def hostsConfigMap_def)
  have l: "lastReplacing ?es = Some (Deleted NilInterface)"
    by (simp add: lastReplacing_def hostsConfigMap_def)
  have e: "replaces ?add \<and> \<not> isDelete ?add"
    by (simp add: hostsConfigMap_def)
  have r2: "snd (run NewSettings [?upd]) = Inr NewSettings"
    by (simp add: handleUpdateEvent_def assertConfigMap_def)
  have l2: "lastReplacing [?upd] = None"
    by (simp add: lastReplacing_def)
  from C10_empty_host_list [of "''a,b''" ?add NewSettings ?es ?s'] r l e
  have a: "len (NginxPlusHosts ?s') = 0
           \<and> (\<exists>hs. snd (deliver NewSettings ?add) = Inr (NewSettings\<lparr>NginxPlusHosts := Some hs\<rparr>)
                  \<and> hs \<noteq> [])"
    by simp
  from C10_empty_host_list [of "''a,b''" ?add NewSettings "[?upd]" NewSettings] r2 l2
  have b: "NginxPlusHosts NewSettings = None"
    by simp
  from r l e a r2 l2 b show ?thesis
    by (simp only: simp_thms)
qed

text \<open>
  C10 as the claim words it fails in the state \<^verbatim>\<open>NewSettings\<close> returns: the host
  list is nil there, so it has no element, and it stays so through an add whose
  ConfigMap has no \<^verbatim>\<open>nginx-hosts\<close> key, although no event replaced the list and
  none was a delete.
\<close>

theorem C10_initial_state_counterexample:
  "snd (run NewSettings [Added (PtrConfigMap (Some otherConfigMap))]) = Inr NewSettings
   \<and> len (NginxPlusHosts NewSettings) = 0
   \<and> lastReplacing [Added (PtrConfigMap (Some otherConfigMap))] = None
   \<and> filter isDelete [Added (PtrConfigMap (Some otherConfigMap))] = []"
  by (simp add: handleAddEvent_def handleUpdateEvent_def assertConfigMap_def otherConfigMap_def
        lastReplacing_def len_def NewSettings_def)


section \<open>Claims about the TLS configuration factory\<close>

text \<open>
  C2. For every certificate bundle and every behaviour of the library,
  \<^verbatim>\<open>NewTlsConfig\<close> with mode \<^verbatim>\<open>no-tls\<close> returns, without error, the configuration
  of \<^verbatim>\<open>buildBasicTlsConfig(true)\<close>: verification is skipped, no pool of trust roots
  is installed (\<^verbatim>\<open>RootCAs\<close> is nil) and there is no client certificate. A mode that
  is none of \<^verbatim>\<open>no-tls\<close>, \<^verbatim>\<open>ca-tls\<close>, \<^verbatim>\<open>ca-mtls\<close>, \<^verbatim>\<open>ss-tls\<close>, \<^verbatim>\<open>ss-mtls\<close> takes the
  same default branch and returns this same configuration, whatever the bundle.
\<close>

theorem C2_no_tls_and_default:
  "NewTlsConfig lib \<lparr> TlsMode = ''no-tls'', Certificates = b \<rparr> =
     Inr \<lparr> InsecureSkipVerify = True, RootCAs = None, ConfigCertificates = None \<rparr>
   \<and> (mode \<notin> {''no-tls'', ''ca-tls'', ''ca-mtls'', ''ss-tls'', ''ss-mtls''} \<longrightarrow>
        NewTlsConfig lib \<lparr> TlsMode = mode, Certificates = b' \<rparr> =
          NewTlsConfig lib \<lparr> TlsMode = ''no-tls'', Certificates = b \<rparr>)"
  by (simp add: NewTlsConfig_def buildBasicTlsConfig_def)

theorem C2_no_tls_and_default_witness:
  "''tls'' \<notin> {''no-tls'', ''ca-tls'', ''ca-mtls'', ''ss-tls'', ''ss-mtls''}
   \<and> NewTlsConfig knownAnswers
        \<lparr> TlsMode = ''tls'',
          Certificates = \<lparr> CaCertificate = ''CA-PEM'', ClientCertificate = ''CLIENT-PEM'',
                           ClientKey = ''CLIENT-KEY'' \<rparr> \<rparr> =
       Inr \<lparr> InsecureSkipVerify = True, RootCAs = None, ConfigCertificates = None \<rparr>"
proof -
  have m: "''tls'' \<notin> {''no-tls'', ''ca-tls'', ''ca-mtls'', ''ss-tls'', ''ss-mtls''}"
    by simp
  from C2_no_tls_and_default [of knownAnswers
      "\<lparr> CaCertificate = [], ClientCertificate = [], ClientKey = [] \<rparr>" "''tls''"
      "\<lparr> CaCertificate = ''CA-PEM'', ClientCertificate = ''CLIENT-PEM'',
         ClientKey = ''CLIENT-KEY'' \<rparr>"] m
  show ?thesis by (simp only: simp_thms)
qed

text \<open>
  C3. For every byte sequence and every behaviour of the library,
  \<^verbatim>\<open>buildCaCertificatePool\<close> fails with the error
  \<^verbatim>\<open>failed to decode PEM block containing CA certificate\<close> when \<^verbatim>\<open>pem.Decode\<close>
  finds no block; fails with the parser's error wrapped after
  \<^verbatim>\<open>error parsing certificate: \<close> when the bytes of the first block are not a
  certificate; and otherwise returns a pool holding exactly the parsed certificate.
  Whenever it fails on the bundle's CA certificate, \<^verbatim>\<open>NewTlsConfig\<close> with mode
  \<^verbatim>\<open>ss-tls\<close> returns that error and no configuration.
\<close>

theorem C3_buildCaCertificatePool:
  "(fst (pem_Decode lib caCert) = None \<longrightarrow>
      buildCaCertificatePool lib caCert =
        Inl (Errorf ''failed to decode PEM block containing CA certificate''))
   \<and> (\<forall>block err.
        fst (pem_Decode lib caCert) = Some block
        \<and> x509_ParseCertificate lib (Bytes block) = Inl err \<longrightarrow>
        buildCaCertificatePool lib caCert = Inl (ErrorfW ''error parsing certificate: '' err))
   \<and> (\<forall>block cert.
        fst (pem_Decode lib caCert) = Some block
        \<and> x509_ParseCertificate lib (Bytes block) = Inr cert \<longrightarrow>
        buildCaCertificatePool lib caCert = Inr [cert])
   \<and> (\<forall>err.
        buildCaCertificatePool lib (GetCACertificate b) = Inl err \<longrightarrow>
        NewTlsConfig lib \<lparr> TlsMode = ''ss-tls'', Certificates = b \<rparr> = Inl err)"
proof (intro conjI allI impI)
  assume "fst (pem_Decode lib caCert) = None"
  then show "buildCaCertificatePool lib caCert =
      Inl (Errorf ''failed to decode PEM block containing CA certificate'')"
    by (simp add: buildCaCertificatePool_def)
next
  fix block err
  assume "fst (pem_Decode lib caCert) = Some block
          \<and> x509_ParseCertificate lib (Bytes block) = Inl err"
  then show "buildCaCertificatePool lib caCert =
      Inl (ErrorfW ''error parsing certificate: '' err)"
    by (simp add: buildCaCertificatePool_def)
next
  fix block cert
  assume "fst (pem_Decode lib caCert) = Some block
          \<and> x509_ParseCertificate lib (Bytes block) = Inr cert"
  then show "buildCaCertificatePool lib caCert = Inr [cert]"
    by (simp add: buildCaCertificatePool_def AddCert_def NewCertPool_def)
next
  fix err
  assume "buildCaCertificatePool lib (GetCACertificate b) = Inl err"
  then show "NewTlsConfig lib \<lparr> TlsMode = ''ss-tls'', Certificates = b \<rparr> = Inl err"
    by (simp add: NewTlsConfig_def buildSelfSignedTlsConfig_def)
qed

theorem C3_buildCaCertificatePool_witness:
  "buildCaCertificatePool knownAnswers [] =
     Inl (Errorf ''failed to decode PEM block containing CA certificate'')
   \<and> buildCaCertificatePool knownAnswers ''JUNK-PEM'' =
       Inl (ErrorfW ''error parsing certificate: '' (New ''x509: malformed certificate''))
   \<and> buildCaCertificatePool knownAnswers ''CA-PEM'' = Inr [''CA'']
   \<and> NewTlsConfig knownAnswers
        \<lparr> TlsMode = ''ss-tls'',
          Certificates = \<lparr> CaCertificate = [], ClientCertificate = [], ClientKey = [] \<rparr> \<rparr> =
       Inl (Errorf ''failed to decode PEM block containing CA certificate'')"
proof -
  let ?b = "\<lparr> CaCertificate = [], ClientCertificate = [], ClientKey = [] \<rparr>"
  let ?junk = "\<lparr> Type = ''CERTIFICATE'', Headers = Map.empty, Bytes = ''JUNK'' \<rparr>"
  let ?ca = "\<lparr> Type = ''CERTIFICATE'', Headers = Map.empty, Bytes = ''CA-DER'' \<rparr>"
  have none: "fst (pem_Decode knownAnswers []) = None"
    by (simp add: knownAnswers_def)
  have junk: "fst (pem_Decode knownAnswers ''JUNK-PEM'') = Some ?junk
              \<and> x509_ParseCertificate knownAnswers (Bytes ?junk) =
                  Inl (New ''x509: malformed certificate'')"
    by (simp add: knownAnswers_def)
  have ca: "fst (pem_Decode knownAnswers ''CA-PEM'') = Some ?ca
            \<and> x509_ParseCertificate knownAnswers (Bytes ?ca) = Inr ''CA''"
    by (simp add: knownAnswers_def)
  have g: "GetCACertificate ?b = []"
    by (simp add: GetCACertificate_def)
  from C3_buildCaCertificatePool [of knownAnswers "[]" ?b] none
  have 1: "buildCaCertificatePool knownAnswers [] =
             Inl (Errorf ''failed to decode PEM block containing CA certificate'')"
    by blast
  from C3_buildCaCertificatePool [of knownAnswers "''JUNK-PEM''" ?b] junk
  have 2: "buildCaCertificatePool knownAnswers ''JUNK-PEM'' =
             Inl (ErrorfW ''error parsing certificate: '' (New ''x509: malformed certificate''))"
    by blast
  from C3_buildCaCertificatePool [of knownAnswers "''CA-PEM''" ?b] ca
  have 3: "buildCaCertificatePool knownAnswers ''CA-PEM'' = Inr [''CA'']"
    by blast
  from 1 g have "buildCaCertificatePool knownAnswers (GetCACertificate ?b) =
             Inl (Errorf ''failed to decode PEM block containing CA certificate'')"
    by (simp only:)
  with C3_buildCaCertificatePool [of knownAnswers "[]" ?b]
  have 4: "NewTlsConfig knownAnswers \<lparr> TlsMode = ''ss-tls'', Certificates = ?b \<rparr> =
             Inl (Errorf ''failed to decode PEM block containing CA certificate'')"
    by blast
  from 1 2 3 4 show ?thesis
    by (simp only: simp_thms)
qed

text \<open>
  C4, as it holds. \<^verbatim>\<open>buildSelfSignedMtlsConfig\<close> builds the CA pool first. For every
  bundle whose CA certificate yields a pool and whose client certificate and key
  \<^verbatim>\<open>tls.X509KeyPair\<close> rejects, \<^verbatim>\<open>NewTlsConfig\<close> with mode \<^verbatim>\<open>ss-mtls\<close> returns the
  error of \<^verbatim>\<open>tls.X509KeyPair\<close>, unchanged, and no configuration. For every bundle
  whose key pair is rejected it returns an error and no configuration: the error of
  the CA pool when that fails.
\<close>

theorem C4_ss_mtls_key_pair_error:
  assumes "tls_X509KeyPair lib (ClientCertificate b) (ClientKey b) = Inl err"
  shows "(\<forall>pool. buildCaCertificatePool lib (GetCACertificate b) = Inr pool \<longrightarrow>
            NewTlsConfig lib \<lparr> TlsMode = ''ss-mtls'', Certificates = b \<rparr> = Inl err)
         \<and> (\<forall>caErr. buildCaCertificatePool lib (GetCACertificate b) = Inl caErr \<longrightarrow>
            NewTlsConfig lib \<lparr> TlsMode = ''ss-mtls'', Certificates = b \<rparr> = Inl caErr)
         \<and> (\<exists>e. NewTlsConfig lib \<lparr> TlsMode = ''ss-mtls'', Certificates = b \<rparr> = Inl e)"
proof -
  have k: "(case GetClientCertificate b of (key, cert) \<Rightarrow> buildCertificates lib key cert) =
             Inl err"
    using assms by (simp add: GetClientCertificate_def buildCertificates_def)
  have ok: "\<forall>pool. buildCaCertificatePool lib (GetCACertificate b) = Inr pool \<longrightarrow>
              NewTlsConfig lib \<lparr> TlsMode = ''ss-mtls'', Certificates = b \<rparr> = Inl err"
    by (simp add: NewTlsConfig_def buildSelfSignedMtlsConfig_def k)
  have bad: "\<forall>caErr. buildCaCertificatePool lib (GetCACertificate b) = Inl caErr \<longrightarrow>
              NewTlsConfig lib \<lparr> TlsMode = ''ss-mtls'', Certificates = b \<rparr> = Inl caErr"
    by (simp add: NewTlsConfig_def buildSelfSignedMtlsConfig_def)
  have "\<exists>e. NewTlsConfig lib \<lparr> TlsMode = ''ss-mtls'', Certificates = b \<rparr> = Inl e"
  proof (cases "buildCaCertificatePool lib (GetCACertificate b)")
    case (Inl caErr)
    with bad show ?thesis by blast
  next
    case (Inr pool)
    with ok show ?thesis by blast
  qed
  with ok bad show ?thesis by (intro conjI)
qed

theorem C4_ss_mtls_key_pair_error_witness:
  "tls_X509KeyPair knownAnswers ''CLIENT-PEM'' ''OTHER-KEY'' =
     Inl (New ''tls: private key does not match public key'')
   \<and> buildCaCertificatePool knownAnswers ''CA-PEM'' = Inr [''CA'']
   \<and> NewTlsConfig knownAnswers
        \<lparr> TlsMode = ''ss-mtls'',
          Certificates = \<lparr> CaCertificate = ''CA-PEM'', ClientCertificate = ''CLIENT-PEM'',
                           ClientKey = ''OTHER-KEY'' \<rparr> \<rparr> =
       Inl (New ''tls: private key does not match public key'')"
proof -
  let ?b = "\<lparr> CaCertificate = ''CA-PEM'', ClientCertificate = ''CLIENT-PEM'',
               ClientKey = ''OTHER-KEY'' \<rparr>"
  have k: "tls_X509KeyPair knownAnswers ''CLIENT-PEM'' ''OTHER-KEY'' =
             Inl (New ''tls: private key does not match public key'')"
    by (simp add: knownAnswers_def)
  then have k': "tls_X509KeyPair knownAnswers (ClientCertificate ?b) (ClientKey ?b) =
             Inl (New ''tls: private key does not match public key'')"
    by simp
  have p: "buildCaCertificatePool knownAnswers ''CA-PEM'' = Inr [''CA'']"
    by (simp add: buildCaCertificatePool_def knownAnswers_def AddCert_def NewCertPool_def)
  then have p': "buildCaCertificatePool knownAnswers (GetCACertificate ?b) = Inr [''CA'']"
    by (simp add: GetCACertificate_def)
  from C4_ss_mtls_key_pair_error [OF k'] p'
  have "NewTlsConfig knownAnswers \<lparr> TlsMode = ''ss-mtls'', Certificates = ?b \<rparr> =
          Inl (New ''tls: private key does not match public key'')"
    by blast
  with k p show ?thesis
    by (simp only: simp_thms)
qed

text \<open>
  C4 as the claim words it fails for a bundle whose key pair does not match and
  whose CA certificate holds no PEM block (here the empty input): the error returned
  is the one of the CA pool, not the one of the key pair.
\<close>

theorem C4_ca_error_first_counterexample:
  "tls_X509KeyPair knownAnswers ''CLIENT-PEM'' ''OTHER-KEY'' =
     Inl (New ''tls: private key does not match public key'')
   \<and> NewTlsConfig knownAnswers
        \<lparr> TlsMode = ''ss-mtls'',
          Certificates = \<lparr> CaCertificate = [], ClientCertificate = ''CLIENT-PEM'',
                           ClientKey = ''OTHER-KEY'' \<rparr> \<rparr> =
       Inl (Errorf ''failed to decode PEM block containing CA certificate'')
   \<and> NewTlsConfig knownAnswers
        \<lparr> TlsMode = ''ss-mtls'',
          Certificates = \<lparr> CaCertificate = [], ClientCertificate = ''CLIENT-PEM'',
                           ClientKey = ''OTHER-KEY'' \<rparr> \<rparr> \<noteq>
       Inl (New ''tls: private key does not match public key'')"
  by (simp add: NewTlsConfig_def buildSelfSignedMtlsConfig_def buildCaCertificatePool_def
        GetCACertificate_def knownAnswers_def)

text \<open>
  C8. For every bundle whose client certificate and key \<^verbatim>\<open>tls.X509KeyPair\<close> accepts,
  \<^verbatim>\<open>NewTlsConfig\<close> with mode \<^verbatim>\<open>ca-mtls\<close> returns, without error, a configuration
  that carries exactly that key pair as client certificate, installs no pool of
  trust roots (\<^verbatim>\<open>RootCAs\<close> is nil, which selects the host's roots) and does not skip
  verification. The CA certificate of the bundle is not read.
\<close>

theorem C8_ca_mtls:
  assumes "tls_X509KeyPair lib (ClientCertificate b) (ClientKey b) = Inr certificate"
  shows "NewTlsConfig lib \<lparr> TlsMode = ''ca-mtls'', Certificates = b \<rparr> =
           Inr \<lparr> InsecureSkipVerify = False, RootCAs = None,
                 ConfigCertificates = Some [certificate] \<rparr>"
  using assms
  by (simp add: NewTlsConfig_def buildCaTlsConfig_def GetClientCertificate_def
        buildCertificates_def)

theorem C8_ca_mtls_witness:
  "tls_X509KeyPair knownAnswers ''CLIENT-PEM'' ''CLIENT-KEY'' = Inr (''CLIENT-PEM'', ''CLIENT-KEY'')
   \<and> NewTlsConfig knownAnswers
        \<lparr> TlsMode = ''ca-mtls'',
          Certificates = \<lparr> CaCertificate = [], ClientCertificate = ''CLIENT-PEM'',
                           ClientKey = ''CLIENT-KEY'' \<rparr> \<rparr> =
       Inr \<lparr> InsecureSkipVerify = False, RootCAs = None,
             ConfigCertificates = Some [(''CLIENT-PEM'', ''CLIENT-KEY'')] \<rparr>"
proof -
  let ?b = "\<lparr> CaCertificate = [], ClientCertificate = ''CLIENT-PEM'',
               ClientKey = ''CLIENT-KEY'' \<rparr>"
  have k: "tls_X509KeyPair knownAnswers ''CLIENT-PEM'' ''CLIENT-KEY'' =
             Inr (''CLIENT-PEM'', ''CLIENT-KEY'')"
    by (simp add: knownAnswers_def)
  then have k': "tls_X509KeyPair knownAnswers (ClientCertificate ?b) (ClientKey ?b) =
             Inr (''CLIENT-PEM'', ''CLIENT-KEY'')"
    by simp
  from C8_ca_mtls [OF k'] k show ?thesis
    by (simp only: simp_thms)
qed

end
